theory Spec2Isabelle
  imports Complex_Main "HOL-Library.Word"
begin

section \<open>The smart-card reader emulation served over a message transport\<close>

text \<open>
  The development embeds the two dispatching servers of the repository,
  \<^verbatim>\<open>src/server-4.py\<close> and \<^verbatim>\<open>src/server-5.py\<close>. Both define a coroutine
  \<^verbatim>\<open>handle_client\<close> whose loop receives one message per iteration, reads the byte
  at index 1 as the routing tag and answers with a frame made of a tag (2 bytes, big
  endian), a length (2 bytes, big endian) and a payload. The later file adds the
  native card library and the five-second gate in front of it.
\<close>

subsection \<open>Bytes, exceptions and Python's integer conversion\<close>

type_synonym byte = "8 word"
type_synonym bytes = "byte list"

text \<open>
  The exceptions that can travel through \<^verbatim>\<open>handle_client\<close>: \<^verbatim>\<open>int.to_bytes\<close>
  raises \<^verbatim>\<open>OverflowError\<close>, the transport raises one of the two
  \<^verbatim>\<open>ConnectionClosed\<close> subclasses, and anything raised while the native library
  is called is a \<^verbatim>\<open>LibraryException\<close>.
\<close>

datatype exn = OverflowError | ConnectionClosedError | ConnectionClosedOK | LibraryException

text \<open>The \<open>k\<close> low-order base-256 digits of \<open>n\<close>, most significant first.\<close>

fun big_endian :: "nat \<Rightarrow> int \<Rightarrow> bytes" where
  "big_endian 0 n = []"
| "big_endian (Suc k) n = big_endian k (n div 256) @ [word_of_int n]"

text \<open>
  \<^verbatim>\<open>n.to_bytes(len, byteorder='big')\<close>: Python raises \<^verbatim>\<open>OverflowError\<close> for a
  negative \<open>n\<close> and for an \<open>n\<close> that does not fit in \<open>len\<close> bytes.
\<close>

definition to_bytes :: "int \<Rightarrow> nat \<Rightarrow> exn + bytes" where
  "to_bytes n len =
     (if n < 0 then Inl OverflowError
      else if 256 ^ len \<le> n then Inl OverflowError
      else Inr (big_endian len n))"

text \<open>
  The expression that builds every computed response,
  \<^verbatim>\<open>tag.to_bytes(2, byteorder='big') + len(payload).to_bytes(2, byteorder='big') + payload\<close>
  (lines 151-155, 162-166 and 185-189 of \<^verbatim>\<open>server-5.py\<close>).
\<close>

definition encode :: "int \<Rightarrow> bytes \<Rightarrow> exn + bytes" where
  "encode tag payload =
     (case to_bytes tag 2 of
        Inl x \<Rightarrow> Inl x
      | Inr t \<Rightarrow>
          (case to_bytes (int (length payload)) 2 of
             Inl x \<Rightarrow> Inl x
           | Inr l \<Rightarrow> Inr (t @ l @ payload)))"

subsection \<open>The native card library behind \<^verbatim>\<open>handle_apdu\<close>\<close>

text \<open>Python's slice \<^verbatim>\<open>xs[:n]\<close>; a negative \<open>n\<close> counts from the end.\<close>

definition slice_to :: "'a list \<Rightarrow> int \<Rightarrow> 'a list" where
  "slice_to xs n =
     (if n < 0 then take (nat (int (length xs) + n)) xs else take (nat n) xs)"

text \<open>
  \<^verbatim>\<open>response_apdu = (ctypes.c_ubyte * 10000)()\<close>: an array of exactly 10000 bytes,
  zero at first, into which the library writes from index 0.
\<close>

definition response_buffer :: "bytes \<Rightarrow> bytes" where
  "response_buffer written = take 10000 (written @ replicate (10000 - length written) 0)"

text \<open>
  \<^verbatim>\<open>handle_apdu\<close> of \<^verbatim>\<open>server-5.py\<close>. The library function
  \<^verbatim>\<open>SendApdu_softToken\<close> is a parameter: called on the command it either raises, or
  returns the bytes it wrote into the response array and the value it left in
  \<^verbatim>\<open>response_len\<close>. The \<^verbatim>\<open>except\<close> clause prints and raises again.
\<close>

definition handle_apdu :: "(bytes \<Rightarrow> exn + bytes \<times> int) \<Rightarrow> bytes \<Rightarrow> exn + bytes" where
  "handle_apdu SendApdu_softToken apdu_command =
     (case SendApdu_softToken apdu_command of
        Inl x \<Rightarrow> Inl x
      | Inr (written, response_len) \<Rightarrow> Inr (slice_to (response_buffer written) response_len))"

subsection \<open>One iteration of the loop\<close>

text \<open>What \<^verbatim>\<open>websocket.recv()\<close> gives: a message, or an exception of the transport.\<close>

datatype message = Bytes bytes | Str string | NoneMessage

datatype recv_result = Message message | RecvRaises exn

text \<open>
  Everything one iteration reads from outside: the global flag \<^verbatim>\<open>break_loop\<close> at
  the loop test, the result of \<^verbatim>\<open>recv\<close>, the value of
  \<^verbatim>\<open>time.time() - start_time\<close>, the behaviour of the library at that moment, and
  whether \<^verbatim>\<open>websocket.send\<close> raises (the connection was closed meanwhile).
\<close>

record env =
  break_loop :: bool
  recv :: recv_result
  elapsed_time :: real
  SendApdu_softToken :: "bytes \<Rightarrow> exn + bytes \<times> int"
  send_raises :: "exn option"

text \<open>
  How the loop body ends, with the frames it handed to the transport and the commands
  it handed to \<^verbatim>\<open>handle_apdu\<close>.
\<close>

datatype control = Continue | Raise exn

record outcome =
  sent :: "bytes list"
  apdu_calls :: "bytes list"
  control :: control

definition websocket_send :: "env \<Rightarrow> bytes list \<Rightarrow> bytes \<Rightarrow> outcome" where
  "websocket_send e calls response =
     (case send_raises e of
        None \<Rightarrow> \<lparr>sent = [response], apdu_calls = calls, control = Continue\<rparr>
      | Some x \<Rightarrow> \<lparr>sent = [], apdu_calls = calls, control = Raise x\<rparr>)"

definition send_encoded :: "env \<Rightarrow> bytes list \<Rightarrow> exn + bytes \<Rightarrow> outcome" where
  "send_encoded e calls r =
     (case r of
        Inl x \<Rightarrow> \<lparr>sent = [], apdu_calls = calls, control = Raise x\<rparr>
      | Inr response \<Rightarrow> websocket_send e calls response)"

definition no_response :: outcome where
  "no_response = \<lparr>sent = [], apdu_calls = [], control = Continue\<rparr>"

text \<open>The \<^verbatim>\<open>else\<close> branch of both servers: the literal \<^verbatim>\<open>b'\x00\x02\x6d\x82'\<close>.\<close>

definition default_response :: "env \<Rightarrow> outcome" where
  "default_response e = websocket_send e [] [0x00, 0x02, 0x6d, 0x82]"

definition tag_recvd :: "bytes \<Rightarrow> byte option" where
  "tag_recvd message = (if length message > 1 then Some (message ! 1) else None)"

text \<open>The command branch of \<^verbatim>\<open>server-5.py\<close> (lines 170-191).\<close>

definition command_apdu :: "env \<Rightarrow> bytes \<Rightarrow> outcome" where
  "command_apdu e message =
     (let tag_sent = 90 in
      if elapsed_time e \<le> 5 then
        send_encoded e [] (encode tag_sent [0x6d, 0x82])
      else
        (let apdu_command = drop 2 message;
             resp = (case handle_apdu (SendApdu_softToken e) apdu_command of
                       Inr r \<Rightarrow> r
                     | Inl x \<Rightarrow> [0x6d, 0x82])
         in send_encoded e [apdu_command] (encode tag_sent resp)))"

text \<open>
  The body of \<^verbatim>\<open>if isinstance(message, bytes)\<close> in \<^verbatim>\<open>server-5.py\<close>
  (lines 144-203).
\<close>

definition handle_bytes :: "env \<Rightarrow> bytes \<Rightarrow> outcome" where
  "handle_bytes e message =
     (case tag_recvd message of
        None \<Rightarrow> default_response e
      | Some t \<Rightarrow>
          if t = 91 then
            (let random_data = [0x55, 0x55, 0x55, 0x55]
             in send_encoded e [] (encode (uint t) random_data))
          else if t = 87 then
            (let atr = [0x3f, 0x95, 0x13, 0x81, 0x01, 0x80, 0x73, 0xff, 0x01, 0x00, 0x0b];
                 tag_sent = 88
             in send_encoded e [] (encode tag_sent atr))
          else if t = 89 then command_apdu e message
          else if t \<in> set [83, 81] then no_response
          else if t = 85 then no_response
          else default_response e)"

text \<open>
  The same body in \<^verbatim>\<open>server-4.py\<close> (lines 28-78): it has no library and no
  clock, and the command branch always answers \<^verbatim>\<open>6D 82\<close>.
\<close>

definition handle_bytes_4 :: "env \<Rightarrow> bytes \<Rightarrow> outcome" where
  "handle_bytes_4 e message =
     (case tag_recvd message of
        None \<Rightarrow> default_response e
      | Some t \<Rightarrow>
          if t = 91 then
            (let random_data = [0x55, 0x55, 0x55, 0x55]
             in send_encoded e [] (encode (uint t) random_data))
          else if t = 87 then
            (let atr = [0x3f, 0x95, 0x13, 0x81, 0x01, 0x80, 0x73, 0xff, 0x01, 0x00, 0x0b];
                 tag_sent = 88
             in send_encoded e [] (encode tag_sent atr))
          else if t = 89 then
            (let resp = [0x6d, 0x82];
                 tag_sent = 90
             in send_encoded e [] (encode tag_sent resp))
          else if t \<in> set [83, 81] then no_response
          else if t = 85 then no_response
          else default_response e)"

subsection \<open>The session: the loop of \<^verbatim>\<open>handle_client\<close>\<close>

datatype session_state = AWAITING_FRAME | CLOSED

record session =
  frames :: "bytes list"
  commands :: "bytes list"
  state :: session_state

definition closed_session :: session where
  "closed_session = \<lparr>frames = [], commands = [], state = CLOSED\<rparr>"

definition after :: "outcome \<Rightarrow> session \<Rightarrow> session" where
  "after out s =
     \<lparr>frames = sent out @ frames s, commands = apdu_calls out @ commands s, state = state s\<rparr>"

text \<open>
  The loop, over the environments of its successive iterations. It is the same text in
  both servers but for the body, which is the parameter. A session that has consumed
  every iteration without leaving the loop is suspended in \<^verbatim>\<open>recv\<close>. The loop is
  left by the flag, by \<^verbatim>\<open>None\<close>, and by any exception: a
  \<^verbatim>\<open>ConnectionClosedError\<close> is caught outside the loop and any other one leaves the
  coroutine, so both end the session. A text message is skipped.
\<close>

fun client_loop :: "(env \<Rightarrow> bytes \<Rightarrow> outcome) \<Rightarrow> env list \<Rightarrow> session" where
  "client_loop body [] = \<lparr>frames = [], commands = [], state = AWAITING_FRAME\<rparr>"
| "client_loop body (e # es) =
     (if break_loop e then closed_session
      else
        (case recv e of
           RecvRaises x \<Rightarrow> closed_session
         | Message NoneMessage \<Rightarrow> closed_session
         | Message (Str s) \<Rightarrow> client_loop body es
         | Message (Bytes message) \<Rightarrow>
             (let out = body e message in
              case control out of
                Continue \<Rightarrow> after out (client_loop body es)
              | Raise x \<Rightarrow> after out closed_session)))"

definition handle_client :: "env list \<Rightarrow> session" where
  "handle_client = client_loop handle_bytes"

definition handle_client_4 :: "env list \<Rightarrow> session" where
  "handle_client_4 = client_loop handle_bytes_4"

subsection \<open>The wire format in the words of the specification\<close>

text \<open>
  The servers never read a frame as a whole: they look at the byte at index 1 and, for a
  command, slice the message from index 2. The layout they are compared with is the
  one of the specification (section 6): bytes 0-1 the tag, bytes 2-3 the length, the
  payload from byte 4 on, all big endian. The following definitions state that layout;
  none of them is code of the servers.
\<close>

definition declared_length :: "bytes \<Rightarrow> nat" where
  "declared_length frame = 256 * unat (frame ! 2) + unat (frame ! 3)"

definition wire_payload :: "bytes \<Rightarrow> bytes" where
  "wire_payload frame = drop 4 frame"

text \<open>
  A truncated frame: the length field is there and fewer payload bytes follow than it
  declares.
\<close>

definition truncated :: "bytes \<Rightarrow> bool" where
  "truncated frame \<longleftrightarrow> 4 \<le> length frame \<and> length (wire_payload frame) < declared_length frame"

text \<open>
  The invariant of a frame on encode: the length field equals the number of payload
  bytes that follow it.
\<close>

definition encode_invariant :: "bytes \<Rightarrow> bool" where
  "encode_invariant frame \<longleftrightarrow>
     4 \<le> length frame \<and> declared_length frame = length (wire_payload frame)"

datatype decode_error = IncompleteFrame

text \<open>
  Modelled from the spec: the \<^verbatim>\<open>decode\<close> operation of the frame codec, which the
  servers do not contain (they only send frames; the reader of those frames is the
  client of the repository). By sections 3, 4.1 and 6 of the specification a buffer
  with fewer than 4 bytes, or with fewer payload bytes than the length field declares,
  is not a frame; otherwise the tag is the 16-bit big-endian value of bytes 0-1 and the
  payload the declared number of bytes from byte 4 on.
\<close>

definition decode :: "bytes \<Rightarrow> decode_error + int \<times> bytes" where
  "decode buffer =
     (if length buffer < 4 then Inl IncompleteFrame
      else if length (wire_payload buffer) < declared_length buffer then Inl IncompleteFrame
      else Inr (256 * uint (buffer ! 0) + uint (buffer ! 1),
                take (declared_length buffer) (wire_payload buffer)))"

subsection \<open>Concrete environments\<close>

text \<open>
  An iteration in which the flag is down, the given binary message arrives at the given
  elapsed time and the transport takes the answer; a library that answers \<^verbatim>\<open>90 00\<close>
  to every command, and one whose call raises.
\<close>

definition receiving :: "bytes \<Rightarrow> real \<Rightarrow> (bytes \<Rightarrow> exn + bytes \<times> int) \<Rightarrow> env" where
  "receiving message t library =
     \<lparr>break_loop = False, recv = Message (Bytes message), elapsed_time = t,
      SendApdu_softToken = library, send_raises = None\<rparr>"

definition answering_card :: "bytes \<Rightarrow> exn + bytes \<times> int" where
  "answering_card command = Inr ([0x90, 0x00], 2)"

definition failing_card :: "bytes \<Rightarrow> exn + bytes \<times> int" where
  "failing_card command = Inl LibraryException"

section \<open>Auxiliary facts\<close>

subsection \<open>Encoding and the length of a library response\<close>

lemma to_bytes_2:
  "to_bytes n 2 =
     (if n < 0 \<or> 65536 \<le> n then Inl OverflowError
      else Inr [word_of_int (n div 256), word_of_int n])"
  by (simp add: to_bytes_def numeral_2_eq_2)

lemma encode_Inr:
  assumes "0 \<le> tag" and "tag < 65536" and "length payload < 65536"
  shows "encode tag payload =
     Inr ([word_of_int (tag div 256), word_of_int tag,
           word_of_nat (length payload div 256), word_of_nat (length payload)] @ payload)"
proof -
  have "int (length payload) div 256 = int (length payload div 256)"
    by (simp add: zdiv_int)
  with assms show ?thesis
    by (simp add: encode_def to_bytes_2)
qed

lemma length_response_buffer: "length (response_buffer written) = 10000"
  by (simp add: response_buffer_def)

lemma length_slice_to: "length (slice_to xs n) \<le> length xs"
  by (auto simp: slice_to_def)

lemma length_handle_apdu:
  assumes "handle_apdu f c = Inr r"
  shows "length r \<le> 10000"
proof -
  from assms obtain written n where r: "r = slice_to (response_buffer written) n"
    by (auto simp: handle_apdu_def split: sum.splits prod.splits)
  show ?thesis
    unfolding r using length_slice_to [of "response_buffer written" n]
    by (simp add: length_response_buffer)
qed

lemmas body_defs =
  handle_bytes_def handle_bytes_4_def tag_recvd_def default_response_def
  send_encoded_def websocket_send_def no_response_def

lemma state_after [simp]: "state (after out s) = state s"
  by (simp add: after_def)

lemma client_loop_append:
  assumes "state (client_loop body es) = AWAITING_FRAME"
  shows "client_loop body (es @ es') =
           \<lparr>frames = frames (client_loop body es) @ frames (client_loop body es'),
            commands = commands (client_loop body es) @ commands (client_loop body es'),
            state = state (client_loop body es')\<rparr>"
  using assms
proof (induction es)
  case Nil
  show ?case by simp
next
  case (Cons e es)
  then show ?case
    by (auto simp: closed_session_def after_def Let_def
        split: if_splits recv_result.splits message.splits control.splits)
qed

lemma client_loop_single:
  assumes "\<not> break_loop e" and "recv e = Message (Bytes message)"
    and "control (body e message) = Continue"
  shows "client_loop body [e] =
     \<lparr>frames = sent (body e message), commands = apdu_calls (body e message),
      state = AWAITING_FRAME\<rparr>"
  using assms by (simp add: after_def Let_def)

lemma client_loop_snoc:
  assumes "state (client_loop body es) = AWAITING_FRAME"
    and "\<not> break_loop e" and "recv e = Message (Bytes message)"
    and "control (body e message) = Continue"
  shows "client_loop body (es @ [e]) =
     \<lparr>frames = frames (client_loop body es) @ sent (body e message),
      commands = commands (client_loop body es) @ apdu_calls (body e message),
      state = AWAITING_FRAME\<rparr>"
proof -
  have "client_loop body [e] =
     \<lparr>frames = sent (body e message), commands = apdu_calls (body e message),
      state = AWAITING_FRAME\<rparr>"
    using assms(2-4) by (rule client_loop_single)
  with client_loop_append [OF assms(1), of "[e]"] show ?thesis
    by simp
qed

lemma client_loop_skip:
  assumes "\<not> break_loop e" and "recv e = Message (Bytes message)"
    and "body e message = no_response"
  shows "client_loop body (es @ e # es') = client_loop body (es @ es')"
proof (induction es)
  case Nil
  from assms show ?case by (simp add: no_response_def after_def)
next
  case (Cons a es)
  then show ?case
    by (simp add: Let_def split: recv_result.splits message.splits control.splits)
qed

subsection \<open>Evaluation and the session after one more iteration\<close>

lemmas run_defs =
  receiving_def answering_card_def failing_card_def handle_client_def handle_client_4_def
  body_defs command_apdu_def handle_apdu_def response_buffer_def slice_to_def
  after_def closed_session_def

lemma handle_client_snoc:
  assumes "state (handle_client es) = AWAITING_FRAME"
    and "\<not> break_loop e" and "recv e = Message (Bytes message)"
    and "handle_bytes e message = \<lparr>sent = fs, apdu_calls = cs, control = Continue\<rparr>"
  shows "handle_client (es @ [e]) =
     \<lparr>frames = frames (handle_client es) @ fs, commands = commands (handle_client es) @ cs,
      state = AWAITING_FRAME\<rparr>"
  using client_loop_snoc [of handle_bytes es e message] assms
  by (simp add: handle_client_def)

lemma handle_client_4_snoc:
  assumes "state (handle_client_4 es) = AWAITING_FRAME"
    and "\<not> break_loop e" and "recv e = Message (Bytes message)"
    and "handle_bytes_4 e message = \<lparr>sent = fs, apdu_calls = cs, control = Continue\<rparr>"
  shows "handle_client_4 (es @ [e]) =
     \<lparr>frames = frames (handle_client_4 es) @ fs, commands = commands (handle_client_4 es) @ cs,
      state = AWAITING_FRAME\<rparr>"
  using client_loop_snoc [of handle_bytes_4 es e message] assms
  by (simp add: handle_client_4_def)

subsection \<open>The frames of the command branch\<close>

lemma declared_length_encoded:
  assumes "n < 65536"
  shows "declared_length ([t0, t1, word_of_nat (n div 256), word_of_nat n] @ payload) = n"
proof -
  from assms have "n div 256 < 256" by simp
  then have "n div 256 mod 256 = n div 256" by simp
  then show ?thesis
    by (simp add: declared_length_def unat_of_nat)
qed

lemma encode_invariant_encoded:
  assumes "encode tag payload = Inr frame"
  shows "encode_invariant frame"
proof -
  from assms have ok: "0 \<le> tag" "tag < 65536" "length payload < 65536"
    by (auto simp: encode_def to_bytes_2 split: if_splits sum.splits)
  from assms encode_Inr [OF ok]
  have frame: "frame = [word_of_int (tag div 256), word_of_int tag,
      word_of_nat (length payload div 256), word_of_nat (length payload)] @ payload"
    by simp
  show ?thesis
    unfolding frame encode_invariant_def
    using declared_length_encoded [OF ok(3)]
    by (simp add: wire_payload_def)
qed

lemma command_apdu_frame:
  "\<exists>resp calls. length resp \<le> 10000 \<and>
     command_apdu e message =
       websocket_send e calls
         ([0x00, 0x5a, word_of_nat (length resp div 256), word_of_nat (length resp)] @ resp)"
proof (cases "elapsed_time e \<le> 5")
  case True
  then have "command_apdu e message = websocket_send e [] ([0x00, 0x5a,
      word_of_nat (length [0x6d, 0x82 :: byte] div 256), word_of_nat (length [0x6d, 0x82 :: byte])]
      @ [0x6d, 0x82])"
    by (simp add: command_apdu_def send_encoded_def encode_Inr)
  moreover have "length [0x6d, 0x82 :: byte] \<le> 10000" by simp
  ultimately show ?thesis by blast
next
  case False
  show ?thesis
  proof (cases "handle_apdu (SendApdu_softToken e) (drop 2 message)")
    case (Inl x)
    with False have "command_apdu e message = websocket_send e [drop 2 message] ([0x00, 0x5a,
      word_of_nat (length [0x6d, 0x82 :: byte] div 256), word_of_nat (length [0x6d, 0x82 :: byte])]
      @ [0x6d, 0x82])"
      by (simp add: command_apdu_def send_encoded_def encode_Inr)
    moreover have "length [0x6d, 0x82 :: byte] \<le> 10000" by simp
    ultimately show ?thesis by blast
  next
    case (Inr r)
    then have len: "length r \<le> 10000" by (rule length_handle_apdu)
    then have "length r < 65536" by simp
    with False Inr have "command_apdu e message = websocket_send e [drop 2 message]
      ([0x00, 0x5a, word_of_nat (length r div 256), word_of_nat (length r)] @ r)"
      by (simp add: command_apdu_def send_encoded_def encode_Inr)
    with len show ?thesis by blast
  qed
qed

subsection \<open>Every branch with the transport up, and reading a frame back\<close>

lemma sent_send_encoded:
  assumes "f \<in> set (sent (send_encoded e calls r))"
  shows "r = Inr f"
  using assms
  by (auto simp: send_encoded_def websocket_send_def split: sum.splits option.splits)

lemma command_apdu_encoded:
  "\<exists>calls resp. command_apdu e message = send_encoded e calls (encode 90 resp)"
  by (auto simp: command_apdu_def Let_def)

lemma handle_bytes_up:
  assumes up: "send_raises e = None"
  shows "control (handle_bytes e message) = Continue
       \<and> (sent (handle_bytes e message) = [] \<longleftrightarrow>
            1 < length message \<and> message ! 1 \<in> {83, 81, 85})"
proof (cases "1 < length message \<and> message ! 1 = 89")
  case True
  then have body: "handle_bytes e message = command_apdu e message"
    by (simp add: handle_bytes_def tag_recvd_def)
  obtain resp calls where "command_apdu e message =
       websocket_send e calls
         ([0x00, 0x5a, word_of_nat (length resp div 256), word_of_nat (length resp)] @ resp)"
    using command_apdu_frame [of e message] by blast
  with up True show ?thesis
    unfolding body by (simp add: websocket_send_def)
next
  case False
  with up show ?thesis
    by (auto simp: body_defs encode_Inr)
qed

lemma encode_InrD:
  assumes "encode tag payload = Inr frame"
  shows "0 \<le> tag \<and> tag < 65536 \<and> length payload < 65536"
  using assms by (auto simp: encode_def to_bytes_2 split: if_splits sum.splits)

lemma tag_of_encoded:
  assumes "0 \<le> tag" and "tag < 65536"
  shows "256 * uint (word_of_int (tag div 256) :: byte) + uint (word_of_int tag :: byte) = tag"
proof -
  from assms have "tag div 256 < 256" "0 \<le> tag div 256" by simp_all
  then have "tag div 256 mod 256 = tag div 256" by simp
  then show ?thesis
    by (simp add: uint_word_of_int)
qed

section \<open>The claims\<close>

text \<open>
  C7. A binary message whose byte at index 1 is 91 is answered, whatever the elapsed
  time and wherever in the session it arrives, by the frame with tag 91 (the received
  tag, on two bytes) and the four payload bytes \<^verbatim>\<open>55 55 55 55\<close>; this holds for both
  servers, and the session goes on waiting for the next frame.
\<close>

theorem status_request_answered:
  assumes tag: "1 < length message" "message ! 1 = 91"
    and up: "send_raises e = None"
    and rx: "\<not> break_loop e" "recv e = Message (Bytes message)"
  shows "handle_bytes e message =
           \<lparr>sent = [[0x00, 0x5b, 0x00, 0x04, 0x55, 0x55, 0x55, 0x55]], apdu_calls = [],
            control = Continue\<rparr>
       \<and> handle_bytes_4 e message =
           \<lparr>sent = [[0x00, 0x5b, 0x00, 0x04, 0x55, 0x55, 0x55, 0x55]], apdu_calls = [],
            control = Continue\<rparr>
       \<and> (state (handle_client es) = AWAITING_FRAME \<longrightarrow>
            handle_client (es @ [e]) =
              \<lparr>frames = frames (handle_client es) @
                         [[0x00, 0x5b, 0x00, 0x04, 0x55, 0x55, 0x55, 0x55]],
               commands = commands (handle_client es), state = AWAITING_FRAME\<rparr>)
       \<and> (state (handle_client_4 es) = AWAITING_FRAME \<longrightarrow>
            handle_client_4 (es @ [e]) =
              \<lparr>frames = frames (handle_client_4 es) @
                         [[0x00, 0x5b, 0x00, 0x04, 0x55, 0x55, 0x55, 0x55]],
               commands = commands (handle_client_4 es), state = AWAITING_FRAME\<rparr>)"
proof -
  have s5: "handle_bytes e message =
           \<lparr>sent = [[0x00, 0x5b, 0x00, 0x04, 0x55, 0x55, 0x55, 0x55]], apdu_calls = [],
            control = Continue\<rparr>"
    using tag up by (simp add: body_defs encode_Inr)
  have s4: "handle_bytes_4 e message =
           \<lparr>sent = [[0x00, 0x5b, 0x00, 0x04, 0x55, 0x55, 0x55, 0x55]], apdu_calls = [],
            control = Continue\<rparr>"
    using tag up by (simp add: body_defs encode_Inr)
  show ?thesis
    using s5 s4 handle_client_snoc [OF _ rx s5, of es] handle_client_4_snoc [OF _ rx s4, of es]
    by simp
qed

theorem status_request_answered_witness:
  "1 < length [0x00, 0x5b :: byte] \<and> [0x00, 0x5b :: byte] ! 1 = 91
   \<and> send_raises (receiving [0x00, 0x5b] 1 failing_card) = None
   \<and> \<not> break_loop (receiving [0x00, 0x5b] 1 failing_card)
   \<and> recv (receiving [0x00, 0x5b] 1 failing_card) = Message (Bytes [0x00, 0x5b])
   \<and> state (handle_client [receiving [0x00, 0x55] 1 failing_card]) = AWAITING_FRAME
   \<and> state (handle_client_4 [receiving [0x00, 0x55] 1 failing_card]) = AWAITING_FRAME
   \<and> handle_bytes (receiving [0x00, 0x5b] 1 failing_card) [0x00, 0x5b] =
        \<lparr>sent = [[0x00, 0x5b, 0x00, 0x04, 0x55, 0x55, 0x55, 0x55]], apdu_calls = [],
         control = Continue\<rparr>
   \<and> handle_client ([receiving [0x00, 0x55] 1 failing_card] @ [receiving [0x00, 0x5b] 1 failing_card]) =
        \<lparr>frames = [[0x00, 0x5b, 0x00, 0x04, 0x55, 0x55, 0x55, 0x55]], commands = [],
         state = AWAITING_FRAME\<rparr>
   \<and> handle_client_4 ([receiving [0x00, 0x55] 1 failing_card] @ [receiving [0x00, 0x5b] 1 failing_card]) =
        \<lparr>frames = [[0x00, 0x5b, 0x00, 0x04, 0x55, 0x55, 0x55, 0x55]], commands = [],
         state = AWAITING_FRAME\<rparr>"
proof -
  have h: "1 < length [0x00, 0x5b :: byte]" "[0x00, 0x5b :: byte] ! 1 = 91"
    "send_raises (receiving [0x00, 0x5b] 1 failing_card) = None"
    "\<not> break_loop (receiving [0x00, 0x5b] 1 failing_card)"
    "recv (receiving [0x00, 0x5b] 1 failing_card) = Message (Bytes [0x00, 0x5b])"
    by (simp_all add: receiving_def)
  have s: "state (handle_client [receiving [0x00, 0x55] 1 failing_card]) = AWAITING_FRAME"
    "state (handle_client_4 [receiving [0x00, 0x55] 1 failing_card]) = AWAITING_FRAME"
    "frames (handle_client [receiving [0x00, 0x55] 1 failing_card]) = []"
    "frames (handle_client_4 [receiving [0x00, 0x55] 1 failing_card]) = []"
    "commands (handle_client [receiving [0x00, 0x55] 1 failing_card]) = []"
    "commands (handle_client_4 [receiving [0x00, 0x55] 1 failing_card]) = []"
    by (simp_all add: run_defs)
  show ?thesis
    using h s status_request_answered [OF h, of "[receiving [0x00, 0x55] 1 failing_card]"]
    by simp
qed

text \<open>
  C5. A binary message whose byte at index 1 is none of 91, 87, 89, 83, 81 and 85 is
  answered by exactly the four bytes \<^verbatim>\<open>00 02 6D 82\<close>, no command reaches the
  library, and the session goes on waiting for the next frame; both servers agree.
\<close>

theorem unknown_tag_answered:
  assumes tag: "1 < length message" "message ! 1 \<notin> {91, 87, 89, 83, 81, 85}"
    and up: "send_raises e = None"
    and rx: "\<not> break_loop e" "recv e = Message (Bytes message)"
  shows "handle_bytes e message =
           \<lparr>sent = [[0x00, 0x02, 0x6d, 0x82]], apdu_calls = [], control = Continue\<rparr>
       \<and> handle_bytes_4 e message =
           \<lparr>sent = [[0x00, 0x02, 0x6d, 0x82]], apdu_calls = [], control = Continue\<rparr>
       \<and> (state (handle_client es) = AWAITING_FRAME \<longrightarrow>
            handle_client (es @ [e]) =
              \<lparr>frames = frames (handle_client es) @ [[0x00, 0x02, 0x6d, 0x82]],
               commands = commands (handle_client es), state = AWAITING_FRAME\<rparr>)
       \<and> (state (handle_client_4 es) = AWAITING_FRAME \<longrightarrow>
            handle_client_4 (es @ [e]) =
              \<lparr>frames = frames (handle_client_4 es) @ [[0x00, 0x02, 0x6d, 0x82]],
               commands = commands (handle_client_4 es), state = AWAITING_FRAME\<rparr>)"
proof -
  have s5: "handle_bytes e message =
           \<lparr>sent = [[0x00, 0x02, 0x6d, 0x82]], apdu_calls = [], control = Continue\<rparr>"
    using tag up by (simp add: body_defs)
  have s4: "handle_bytes_4 e message =
           \<lparr>sent = [[0x00, 0x02, 0x6d, 0x82]], apdu_calls = [], control = Continue\<rparr>"
    using tag up by (simp add: body_defs)
  show ?thesis
    using s5 s4 handle_client_snoc [OF _ rx s5, of es] handle_client_4_snoc [OF _ rx s4, of es]
    by simp
qed

theorem unknown_tag_answered_witness:
  "1 < length [0x00, 0x07 :: byte] \<and> [0x00, 0x07 :: byte] ! 1 \<notin> {91, 87, 89, 83, 81, 85}
   \<and> state (handle_client [receiving [0x00, 0x5b] 1 failing_card]) = AWAITING_FRAME
   \<and> state (handle_client_4 [receiving [0x00, 0x5b] 1 failing_card]) = AWAITING_FRAME
   \<and> handle_bytes (receiving [0x00, 0x07] 1 failing_card) [0x00, 0x07] =
        \<lparr>sent = [[0x00, 0x02, 0x6d, 0x82]], apdu_calls = [], control = Continue\<rparr>
   \<and> handle_bytes_4 (receiving [0x00, 0x07] 1 failing_card) [0x00, 0x07] =
        \<lparr>sent = [[0x00, 0x02, 0x6d, 0x82]], apdu_calls = [], control = Continue\<rparr>
   \<and> handle_client ([receiving [0x00, 0x5b] 1 failing_card] @ [receiving [0x00, 0x07] 1 failing_card]) =
        \<lparr>frames = [[0x00, 0x5b, 0x00, 0x04, 0x55, 0x55, 0x55, 0x55], [0x00, 0x02, 0x6d, 0x82]],
         commands = [], state = AWAITING_FRAME\<rparr>
   \<and> handle_client_4 ([receiving [0x00, 0x5b] 1 failing_card] @ [receiving [0x00, 0x07] 1 failing_card]) =
        \<lparr>frames = [[0x00, 0x5b, 0x00, 0x04, 0x55, 0x55, 0x55, 0x55], [0x00, 0x02, 0x6d, 0x82]],
         commands = [], state = AWAITING_FRAME\<rparr>"
proof -
  have h: "1 < length [0x00, 0x07 :: byte]"
    "[0x00, 0x07 :: byte] ! 1 \<notin> {91, 87, 89, 83, 81, 85}"
    "send_raises (receiving [0x00, 0x07] 1 failing_card) = None"
    "\<not> break_loop (receiving [0x00, 0x07] 1 failing_card)"
    "recv (receiving [0x00, 0x07] 1 failing_card) = Message (Bytes [0x00, 0x07])"
    by (simp_all add: receiving_def)
  have s: "handle_client [receiving [0x00, 0x5b] 1 failing_card] =
       \<lparr>frames = [[0x00, 0x5b, 0x00, 0x04, 0x55, 0x55, 0x55, 0x55]], commands = [],
        state = AWAITING_FRAME\<rparr>"
    "handle_client_4 [receiving [0x00, 0x5b] 1 failing_card] =
       \<lparr>frames = [[0x00, 0x5b, 0x00, 0x04, 0x55, 0x55, 0x55, 0x55]], commands = [],
        state = AWAITING_FRAME\<rparr>"
    by (simp_all add: run_defs encode_Inr)
  show ?thesis
    using h s unknown_tag_answered [OF h, of "[receiving [0x00, 0x5b] 1 failing_card]"]
    by simp
qed

text \<open>
  C10. A binary message of length 0 or 1 has no byte at index 1: \<^verbatim>\<open>tag_recvd\<close> is
  \<^verbatim>\<open>None\<close>, the chain of comparisons falls through to the last branch, the four
  bytes \<^verbatim>\<open>00 02 6D 82\<close> are sent and the session stays open for further frames.
\<close>

theorem short_message_answered:
  assumes short: "length message = 0 \<or> length message = 1"
    and up: "send_raises e = None"
    and rx: "\<not> break_loop e" "recv e = Message (Bytes message)"
  shows "handle_bytes e message =
           \<lparr>sent = [[0x00, 0x02, 0x6d, 0x82]], apdu_calls = [], control = Continue\<rparr>
       \<and> handle_bytes_4 e message =
           \<lparr>sent = [[0x00, 0x02, 0x6d, 0x82]], apdu_calls = [], control = Continue\<rparr>
       \<and> (state (handle_client es) = AWAITING_FRAME \<longrightarrow>
            handle_client (es @ [e]) =
              \<lparr>frames = frames (handle_client es) @ [[0x00, 0x02, 0x6d, 0x82]],
               commands = commands (handle_client es), state = AWAITING_FRAME\<rparr>)
       \<and> (state (handle_client_4 es) = AWAITING_FRAME \<longrightarrow>
            handle_client_4 (es @ [e]) =
              \<lparr>frames = frames (handle_client_4 es) @ [[0x00, 0x02, 0x6d, 0x82]],
               commands = commands (handle_client_4 es), state = AWAITING_FRAME\<rparr>)"
proof -
  from short have none: "tag_recvd message = None"
    by (auto simp: tag_recvd_def)
  have s5: "handle_bytes e message =
           \<lparr>sent = [[0x00, 0x02, 0x6d, 0x82]], apdu_calls = [], control = Continue\<rparr>"
    using none up by (simp add: handle_bytes_def default_response_def websocket_send_def)
  have s4: "handle_bytes_4 e message =
           \<lparr>sent = [[0x00, 0x02, 0x6d, 0x82]], apdu_calls = [], control = Continue\<rparr>"
    using none up by (simp add: handle_bytes_4_def default_response_def websocket_send_def)
  show ?thesis
    using s5 s4 handle_client_snoc [OF _ rx s5, of es] handle_client_4_snoc [OF _ rx s4, of es]
    by simp
qed

theorem short_message_answered_witness:
  "length [0x5b :: byte] = 1
   \<and> handle_bytes (receiving [] 1 failing_card) [] =
        \<lparr>sent = [[0x00, 0x02, 0x6d, 0x82]], apdu_calls = [], control = Continue\<rparr>
   \<and> handle_bytes_4 (receiving [] 1 failing_card) [] =
        \<lparr>sent = [[0x00, 0x02, 0x6d, 0x82]], apdu_calls = [], control = Continue\<rparr>
   \<and> handle_client ([receiving [] 1 failing_card] @ [receiving [0x5b] 1 failing_card]) =
        \<lparr>frames = [[0x00, 0x02, 0x6d, 0x82], [0x00, 0x02, 0x6d, 0x82]],
         commands = [], state = AWAITING_FRAME\<rparr>
   \<and> handle_client_4 ([receiving [] 1 failing_card] @ [receiving [0x5b] 1 failing_card]) =
        \<lparr>frames = [[0x00, 0x02, 0x6d, 0x82], [0x00, 0x02, 0x6d, 0x82]],
         commands = [], state = AWAITING_FRAME\<rparr>"
proof -
  have h0: "length ([] :: bytes) = 0 \<or> length ([] :: bytes) = 1"
    "send_raises (receiving [] 1 failing_card) = None"
    "\<not> break_loop (receiving [] 1 failing_card)"
    "recv (receiving [] 1 failing_card) = Message (Bytes [])"
    by (simp_all add: receiving_def)
  have h1: "length [0x5b :: byte] = 0 \<or> length [0x5b :: byte] = 1"
    "send_raises (receiving [0x5b] 1 failing_card) = None"
    "\<not> break_loop (receiving [0x5b] 1 failing_card)"
    "recv (receiving [0x5b] 1 failing_card) = Message (Bytes [0x5b])"
    by (simp_all add: receiving_def)
  have start: "handle_client [] = \<lparr>frames = [], commands = [], state = AWAITING_FRAME\<rparr>"
    "handle_client_4 [] = \<lparr>frames = [], commands = [], state = AWAITING_FRAME\<rparr>"
    by (simp_all add: handle_client_def handle_client_4_def)
  have first: "handle_client [receiving [] 1 failing_card] =
        \<lparr>frames = [[0x00, 0x02, 0x6d, 0x82]], commands = [], state = AWAITING_FRAME\<rparr>"
    "handle_client_4 [receiving [] 1 failing_card] =
        \<lparr>frames = [[0x00, 0x02, 0x6d, 0x82]], commands = [], state = AWAITING_FRAME\<rparr>"
    using start short_message_answered [OF h0, of "[]"] by simp_all
  show ?thesis
    using first short_message_answered [OF h0, of "[]"]
      short_message_answered [OF h1, of "[receiving [] 1 failing_card]"]
    by simp
qed

text \<open>
  C1. A command (byte 89 at index 1) that arrives while the elapsed time is at most
  five seconds is answered by the frame with tag 90 and payload \<^verbatim>\<open>6D 82\<close>, whatever
  the command bytes are, and \<^verbatim>\<open>handle_apdu\<close> is not called: the session gains
  exactly that frame and no command, and goes on waiting for the next frame. The
  earlier server, which has no library, gives the same answer.
\<close>

theorem command_in_warm_up:
  assumes tag: "1 < length message" "message ! 1 = 89"
    and warm: "elapsed_time e \<le> 5"
    and up: "send_raises e = None"
    and rx: "\<not> break_loop e" "recv e = Message (Bytes message)"
  shows "handle_bytes e message =
           \<lparr>sent = [[0x00, 0x5a, 0x00, 0x02, 0x6d, 0x82]], apdu_calls = [], control = Continue\<rparr>
       \<and> handle_bytes_4 e message =
           \<lparr>sent = [[0x00, 0x5a, 0x00, 0x02, 0x6d, 0x82]], apdu_calls = [], control = Continue\<rparr>
       \<and> (state (handle_client es) = AWAITING_FRAME \<longrightarrow>
            handle_client (es @ [e]) =
              \<lparr>frames = frames (handle_client es) @ [[0x00, 0x5a, 0x00, 0x02, 0x6d, 0x82]],
               commands = commands (handle_client es), state = AWAITING_FRAME\<rparr>)
       \<and> (state (handle_client_4 es) = AWAITING_FRAME \<longrightarrow>
            handle_client_4 (es @ [e]) =
              \<lparr>frames = frames (handle_client_4 es) @ [[0x00, 0x5a, 0x00, 0x02, 0x6d, 0x82]],
               commands = commands (handle_client_4 es), state = AWAITING_FRAME\<rparr>)"
proof -
  have s5: "handle_bytes e message =
           \<lparr>sent = [[0x00, 0x5a, 0x00, 0x02, 0x6d, 0x82]], apdu_calls = [], control = Continue\<rparr>"
    using tag warm up by (simp add: body_defs command_apdu_def encode_Inr)
  have s4: "handle_bytes_4 e message =
           \<lparr>sent = [[0x00, 0x5a, 0x00, 0x02, 0x6d, 0x82]], apdu_calls = [], control = Continue\<rparr>"
    using tag up by (simp add: body_defs encode_Inr)
  show ?thesis
    using s5 s4 handle_client_snoc [OF _ rx s5, of es] handle_client_4_snoc [OF _ rx s4, of es]
    by simp
qed

theorem command_in_warm_up_witness:
  "1 < length [0x00, 0x59, 0x00, 0xa4 :: byte] \<and> [0x00, 0x59, 0x00, 0xa4 :: byte] ! 1 = 89
   \<and> elapsed_time (receiving [0x00, 0x59, 0x00, 0xa4] 5 answering_card) \<le> 5
   \<and> send_raises (receiving [0x00, 0x59, 0x00, 0xa4] 5 answering_card) = None
   \<and> \<not> break_loop (receiving [0x00, 0x59, 0x00, 0xa4] 5 answering_card)
   \<and> recv (receiving [0x00, 0x59, 0x00, 0xa4] 5 answering_card) =
        Message (Bytes [0x00, 0x59, 0x00, 0xa4])
   \<and> state (handle_client [receiving [0x00, 0x5b] 1 answering_card]) = AWAITING_FRAME
   \<and> state (handle_client_4 [receiving [0x00, 0x5b] 1 answering_card]) = AWAITING_FRAME
   \<and> handle_bytes (receiving [0x00, 0x59, 0x00, 0xa4] 5 answering_card) [0x00, 0x59, 0x00, 0xa4] =
        \<lparr>sent = [[0x00, 0x5a, 0x00, 0x02, 0x6d, 0x82]], apdu_calls = [], control = Continue\<rparr>
   \<and> handle_bytes_4 (receiving [0x00, 0x59, 0x00, 0xa4] 5 answering_card) [0x00, 0x59, 0x00, 0xa4] =
        \<lparr>sent = [[0x00, 0x5a, 0x00, 0x02, 0x6d, 0x82]], apdu_calls = [], control = Continue\<rparr>
   \<and> handle_client ([receiving [0x00, 0x5b] 1 answering_card]
        @ [receiving [0x00, 0x59, 0x00, 0xa4] 5 answering_card]) =
        \<lparr>frames = [[0x00, 0x5b, 0x00, 0x04, 0x55, 0x55, 0x55, 0x55],
                   [0x00, 0x5a, 0x00, 0x02, 0x6d, 0x82]],
         commands = [], state = AWAITING_FRAME\<rparr>
   \<and> handle_client_4 ([receiving [0x00, 0x5b] 1 answering_card]
        @ [receiving [0x00, 0x59, 0x00, 0xa4] 5 answering_card]) =
        \<lparr>frames = [[0x00, 0x5b, 0x00, 0x04, 0x55, 0x55, 0x55, 0x55],
                   [0x00, 0x5a, 0x00, 0x02, 0x6d, 0x82]],
         commands = [], state = AWAITING_FRAME\<rparr>"
proof -
  have h: "1 < length [0x00, 0x59, 0x00, 0xa4 :: byte]"
    "[0x00, 0x59, 0x00, 0xa4 :: byte] ! 1 = 89"
    "elapsed_time (receiving [0x00, 0x59, 0x00, 0xa4] 5 answering_card) \<le> 5"
    "send_raises (receiving [0x00, 0x59, 0x00, 0xa4] 5 answering_card) = None"
    "\<not> break_loop (receiving [0x00, 0x59, 0x00, 0xa4] 5 answering_card)"
    "recv (receiving [0x00, 0x59, 0x00, 0xa4] 5 answering_card) =
       Message (Bytes [0x00, 0x59, 0x00, 0xa4])"
    by (simp_all add: receiving_def)
  have s: "handle_client [receiving [0x00, 0x5b] 1 answering_card] =
       \<lparr>frames = [[0x00, 0x5b, 0x00, 0x04, 0x55, 0x55, 0x55, 0x55]], commands = [],
        state = AWAITING_FRAME\<rparr>"
    "handle_client_4 [receiving [0x00, 0x5b] 1 answering_card] =
       \<lparr>frames = [[0x00, 0x5b, 0x00, 0x04, 0x55, 0x55, 0x55, 0x55]], commands = [],
        state = AWAITING_FRAME\<rparr>"
    by (simp_all add: run_defs encode_Inr)
  show ?thesis
    using h s command_in_warm_up [OF h, of "[receiving [0x00, 0x5b] 1 answering_card]"]
    by simp
qed

text \<open>
  C8. A binary message whose byte at index 1 is 83, 81 or 85 sends nothing and calls
  nothing, and the session is as if the message had not arrived: the iterations that
  follow are handled exactly as they would have been without it.
\<close>

theorem ignored_tags:
  assumes tag: "1 < length message" "message ! 1 \<in> {83, 81, 85}"
    and rx: "\<not> break_loop e" "recv e = Message (Bytes message)"
  shows "handle_bytes e message = \<lparr>sent = [], apdu_calls = [], control = Continue\<rparr>
       \<and> handle_client (es @ e # es') = handle_client (es @ es')
       \<and> (state (handle_client es) = AWAITING_FRAME \<longrightarrow>
            handle_client (es @ [e]) = handle_client es)"
proof -
  have s5: "handle_bytes e message = no_response"
    using tag by (auto simp: body_defs)
  have skip: "handle_client (es @ e # es') = handle_client (es @ es')" for es'
    unfolding handle_client_def using rx s5 by (rule client_loop_skip)
  from skip [of "[]"] s5 skip show ?thesis
    by (simp add: no_response_def)
qed

theorem ignored_tags_witness:
  "1 < length [0x00, 0x53 :: byte] \<and> [0x00, 0x53 :: byte] ! 1 \<in> {83, 81, 85}
   \<and> handle_bytes (receiving [0x00, 0x53] 6 answering_card) [0x00, 0x53] =
        \<lparr>sent = [], apdu_calls = [], control = Continue\<rparr>
   \<and> state (handle_client [receiving [0x00, 0x5b] 6 answering_card]) = AWAITING_FRAME
   \<and> handle_client ([receiving [0x00, 0x5b] 6 answering_card] @ [receiving [0x00, 0x53] 6 answering_card]) =
        \<lparr>frames = [[0x00, 0x5b, 0x00, 0x04, 0x55, 0x55, 0x55, 0x55]], commands = [],
         state = AWAITING_FRAME\<rparr>
   \<and> handle_client ([receiving [0x00, 0x5b] 6 answering_card] @ receiving [0x00, 0x53] 6 answering_card
        # [receiving [0x00, 0x59, 0x00, 0xa4] 6 answering_card]) =
        \<lparr>frames = [[0x00, 0x5b, 0x00, 0x04, 0x55, 0x55, 0x55, 0x55],
                   [0x00, 0x5a, 0x00, 0x02, 0x90, 0x00]],
         commands = [[0x00, 0xa4]], state = AWAITING_FRAME\<rparr>"
proof -
  have h: "1 < length [0x00, 0x53 :: byte]" "[0x00, 0x53 :: byte] ! 1 \<in> {83, 81, 85}"
    "\<not> break_loop (receiving [0x00, 0x53] 6 answering_card)"
    "recv (receiving [0x00, 0x53] 6 answering_card) = Message (Bytes [0x00, 0x53])"
    by (simp_all add: receiving_def)
  have s: "handle_client [receiving [0x00, 0x5b] 6 answering_card] =
        \<lparr>frames = [[0x00, 0x5b, 0x00, 0x04, 0x55, 0x55, 0x55, 0x55]], commands = [],
         state = AWAITING_FRAME\<rparr>"
    "handle_client ([receiving [0x00, 0x5b] 6 answering_card]
        @ [receiving [0x00, 0x59, 0x00, 0xa4] 6 answering_card]) =
        \<lparr>frames = [[0x00, 0x5b, 0x00, 0x04, 0x55, 0x55, 0x55, 0x55],
                   [0x00, 0x5a, 0x00, 0x02, 0x90, 0x00]],
         commands = [[0x00, 0xa4]], state = AWAITING_FRAME\<rparr>"
    by (simp_all add: run_defs encode_Inr)
  show ?thesis
    using h s
      ignored_tags [OF h, of "[receiving [0x00, 0x5b] 6 answering_card]"
        "[receiving [0x00, 0x59, 0x00, 0xa4] 6 answering_card]"]
    by simp
qed

text \<open>
  C2. A command that arrives after the first five seconds is handed to
  \<^verbatim>\<open>handle_apdu\<close>. When that returns the bytes \<open>X\<close>, the answer is the frame with
  tag 90, the length of \<open>X\<close> and \<open>X\<close>; when it raises, the answer is the frame with
  tag 90 and payload \<^verbatim>\<open>6D 82\<close>. In both cases the loop body ends normally, so the
  exception stays inside the branch: the session gains exactly that frame and that one
  command, and goes on waiting for the next frame.
\<close>

theorem command_after_warm_up:
  assumes tag: "1 < length message" "message ! 1 = 89"
    and late: "5 < elapsed_time e"
    and up: "send_raises e = None"
    and rx: "\<not> break_loop e" "recv e = Message (Bytes message)"
  shows "(\<forall>X. handle_apdu (SendApdu_softToken e) (drop 2 message) = Inr X \<longrightarrow>
            handle_bytes e message =
              \<lparr>sent = [[0x00, 0x5a, word_of_nat (length X div 256), word_of_nat (length X)] @ X],
               apdu_calls = [drop 2 message], control = Continue\<rparr>
          \<and> (state (handle_client es) = AWAITING_FRAME \<longrightarrow>
               handle_client (es @ [e]) =
                 \<lparr>frames = frames (handle_client es) @
                    [[0x00, 0x5a, word_of_nat (length X div 256), word_of_nat (length X)] @ X],
                  commands = commands (handle_client es) @ [drop 2 message],
                  state = AWAITING_FRAME\<rparr>))
       \<and> (\<forall>x. handle_apdu (SendApdu_softToken e) (drop 2 message) = Inl x \<longrightarrow>
            handle_bytes e message =
              \<lparr>sent = [[0x00, 0x5a, 0x00, 0x02, 0x6d, 0x82]],
               apdu_calls = [drop 2 message], control = Continue\<rparr>
          \<and> (state (handle_client es) = AWAITING_FRAME \<longrightarrow>
               handle_client (es @ [e]) =
                 \<lparr>frames = frames (handle_client es) @ [[0x00, 0x5a, 0x00, 0x02, 0x6d, 0x82]],
                  commands = commands (handle_client es) @ [drop 2 message],
                  state = AWAITING_FRAME\<rparr>))"
proof -
  from tag have body: "handle_bytes e message = command_apdu e message"
    by (simp add: handle_bytes_def tag_recvd_def)
  have returns: "handle_bytes e message =
              \<lparr>sent = [[0x00, 0x5a, word_of_nat (length X div 256), word_of_nat (length X)] @ X],
               apdu_calls = [drop 2 message], control = Continue\<rparr>"
    if X: "handle_apdu (SendApdu_softToken e) (drop 2 message) = Inr X" for X
  proof -
    from X have "length X \<le> 10000" by (rule length_handle_apdu)
    then have "length X < 65536" by simp
    with X late up show ?thesis
      unfolding body
      by (simp add: command_apdu_def send_encoded_def websocket_send_def encode_Inr)
  qed
  have raises: "handle_bytes e message =
              \<lparr>sent = [[0x00, 0x5a, 0x00, 0x02, 0x6d, 0x82]],
               apdu_calls = [drop 2 message], control = Continue\<rparr>"
    if "handle_apdu (SendApdu_softToken e) (drop 2 message) = Inl x" for x
    using that late up unfolding body
    by (simp add: command_apdu_def send_encoded_def websocket_send_def encode_Inr)
  have session: "handle_client (es @ [e]) =
       \<lparr>frames = frames (handle_client es) @ fs, commands = commands (handle_client es) @ cs,
        state = AWAITING_FRAME\<rparr>"
    if "handle_bytes e message = \<lparr>sent = fs, apdu_calls = cs, control = Continue\<rparr>"
      and "state (handle_client es) = AWAITING_FRAME" for fs cs
    using that(2) rx that(1) by (rule handle_client_snoc)
  show ?thesis
    using returns raises session by blast
qed

theorem command_after_warm_up_witness:
  "5 < elapsed_time (receiving [0x00, 0x59, 0x00, 0xa4] 6 answering_card)
   \<and> handle_apdu answering_card (drop 2 [0x00, 0x59, 0x00, 0xa4]) = Inr [0x90, 0x00]
   \<and> handle_bytes (receiving [0x00, 0x59, 0x00, 0xa4] 6 answering_card) [0x00, 0x59, 0x00, 0xa4] =
        \<lparr>sent = [[0x00, 0x5a, 0x00, 0x02, 0x90, 0x00]], apdu_calls = [[0x00, 0xa4]],
         control = Continue\<rparr>
   \<and> handle_apdu failing_card (drop 2 [0x00, 0x59, 0x00, 0xa4]) = Inl LibraryException
   \<and> handle_bytes (receiving [0x00, 0x59, 0x00, 0xa4] 6 failing_card) [0x00, 0x59, 0x00, 0xa4] =
        \<lparr>sent = [[0x00, 0x5a, 0x00, 0x02, 0x6d, 0x82]], apdu_calls = [[0x00, 0xa4]],
         control = Continue\<rparr>
   \<and> state (handle_client [receiving [0x00, 0x5b] 6 answering_card]) = AWAITING_FRAME
   \<and> handle_client ([receiving [0x00, 0x5b] 6 answering_card]
        @ [receiving [0x00, 0x59, 0x00, 0xa4] 6 answering_card]) =
        \<lparr>frames = [[0x00, 0x5b, 0x00, 0x04, 0x55, 0x55, 0x55, 0x55],
                   [0x00, 0x5a, 0x00, 0x02, 0x90, 0x00]],
         commands = [[0x00, 0xa4]], state = AWAITING_FRAME\<rparr>
   \<and> handle_client ([receiving [0x00, 0x5b] 6 answering_card]
        @ [receiving [0x00, 0x59, 0x00, 0xa4] 6 failing_card]) =
        \<lparr>frames = [[0x00, 0x5b, 0x00, 0x04, 0x55, 0x55, 0x55, 0x55],
                   [0x00, 0x5a, 0x00, 0x02, 0x6d, 0x82]],
         commands = [[0x00, 0xa4]], state = AWAITING_FRAME\<rparr>"
proof -
  have h: "1 < length [0x00, 0x59, 0x00, 0xa4 :: byte]" "[0x00, 0x59, 0x00, 0xa4 :: byte] ! 1 = 89"
    "5 < elapsed_time (receiving [0x00, 0x59, 0x00, 0xa4] 6 lib)"
    "send_raises (receiving [0x00, 0x59, 0x00, 0xa4] 6 lib) = None"
    "\<not> break_loop (receiving [0x00, 0x59, 0x00, 0xa4] 6 lib)"
    "recv (receiving [0x00, 0x59, 0x00, 0xa4] 6 lib) = Message (Bytes [0x00, 0x59, 0x00, 0xa4])"
    "SendApdu_softToken (receiving [0x00, 0x59, 0x00, 0xa4] 6 lib) = lib"
    for lib
    by (simp_all add: receiving_def)
  have lib: "handle_apdu answering_card (drop 2 [0x00, 0x59, 0x00, 0xa4]) = Inr [0x90, 0x00]"
    "handle_apdu failing_card (drop 2 [0x00, 0x59, 0x00, 0xa4]) = Inl LibraryException"
    by (simp_all add: handle_apdu_def answering_card_def failing_card_def response_buffer_def
        slice_to_def)
  have s: "handle_client [receiving [0x00, 0x5b] 6 answering_card] =
       \<lparr>frames = [[0x00, 0x5b, 0x00, 0x04, 0x55, 0x55, 0x55, 0x55]], commands = [],
        state = AWAITING_FRAME\<rparr>"
    by (simp add: run_defs encode_Inr)
  show ?thesis
    using h(3) [of answering_card] lib s
      command_after_warm_up [OF h(1-6), of answering_card "[receiving [0x00, 0x5b] 6 answering_card]"]
      command_after_warm_up [OF h(1-6), of failing_card "[receiving [0x00, 0x5b] 6 answering_card]"]
    by (simp add: h(7))
qed

text \<open>
  C3, as stated, at a concrete command: the message \<^verbatim>\<open>00 59 00 01 A4\<close> carries, in
  the layout of the specification, the tag 89, the length 1 and the payload \<^verbatim>\<open>A4\<close>.
  After the warm-up the server hands \<^verbatim>\<open>00 01 A4\<close> to \<^verbatim>\<open>handle_apdu\<close>: the
  length field is still there, so the forwarded command is not the payload.
\<close>

theorem forwarded_command_counterexample:
  "apdu_calls (handle_bytes (receiving [0x00, 0x59, 0x00, 0x01, 0xa4] 6 answering_card)
      [0x00, 0x59, 0x00, 0x01, 0xa4]) = [[0x00, 0x01, 0xa4]]
   \<and> wire_payload [0x00, 0x59, 0x00, 0x01, 0xa4] = [0xa4]
   \<and> apdu_calls (handle_bytes (receiving [0x00, 0x59, 0x00, 0x01, 0xa4] 6 answering_card)
      [0x00, 0x59, 0x00, 0x01, 0xa4]) \<noteq> [wire_payload [0x00, 0x59, 0x00, 0x01, 0xa4]]"
  by (simp add: run_defs encode_Inr wire_payload_def)

text \<open>
  C3, amended. For a command processed after the warm-up, the bytes handed to
  \<^verbatim>\<open>handle_apdu\<close> are \<^verbatim>\<open>message[2:]\<close>, the message without its first two bytes:
  in the layout of the specification the tag is gone, and the command is the two bytes
  of the length field followed by the payload.
\<close>

theorem forwarded_command:
  assumes tag: "1 < length message" "message ! 1 = 89"
    and late: "5 < elapsed_time e"
  shows "apdu_calls (handle_bytes e message) = [drop 2 message]
       \<and> (4 \<le> length message \<longrightarrow>
            drop 2 message = message ! 2 # message ! 3 # wire_payload message)"
proof -
  have "apdu_calls (send_encoded e calls r) = calls" for calls r
    by (simp add: send_encoded_def websocket_send_def split: sum.splits option.splits)
  with tag late have calls: "apdu_calls (handle_bytes e message) = [drop 2 message]"
    by (simp add: handle_bytes_def tag_recvd_def command_apdu_def Let_def)
  have "drop 2 message = message ! 2 # message ! 3 # wire_payload message"
    if "4 \<le> length message"
  proof -
    from that have "drop 2 message = message ! 2 # drop 3 message"
      using Cons_nth_drop_Suc [of 2 message] by (simp add: numeral_3_eq_3 numeral_2_eq_2)
    moreover from that have "drop 3 message = message ! 3 # drop 4 message"
      using Cons_nth_drop_Suc [of 3 message] by (simp add: eval_nat_numeral)
    ultimately show ?thesis by (simp add: wire_payload_def)
  qed
  with calls show ?thesis by blast
qed

theorem forwarded_command_witness:
  "1 < length [0x00, 0x59, 0x00, 0x01, 0xa4 :: byte]
   \<and> [0x00, 0x59, 0x00, 0x01, 0xa4 :: byte] ! 1 = 89
   \<and> 5 < elapsed_time (receiving [0x00, 0x59, 0x00, 0x01, 0xa4] 6 answering_card)
   \<and> 4 \<le> length [0x00, 0x59, 0x00, 0x01, 0xa4 :: byte]
   \<and> apdu_calls (handle_bytes (receiving [0x00, 0x59, 0x00, 0x01, 0xa4] 6 answering_card)
        [0x00, 0x59, 0x00, 0x01, 0xa4]) = [[0x00, 0x01, 0xa4]]
   \<and> [0x00, 0x01, 0xa4] = 0x00 # 0x01 # wire_payload [0x00, 0x59, 0x00, 0x01, 0xa4 :: byte]"
proof -
  have h: "1 < length [0x00, 0x59, 0x00, 0x01, 0xa4 :: byte]"
    "[0x00, 0x59, 0x00, 0x01, 0xa4 :: byte] ! 1 = 89"
    "5 < elapsed_time (receiving [0x00, 0x59, 0x00, 0x01, 0xa4] 6 answering_card)"
    by (simp_all add: receiving_def)
  show ?thesis
    using h forwarded_command [OF h] by simp
qed

text \<open>
  C4, as stated, at a concrete frame: \<^verbatim>\<open>00 5B 00 05 01\<close> declares five payload bytes
  and carries one. The server answers it with the status frame and the session goes on
  waiting for the next frame; it is neither silent nor closed.
\<close>

theorem truncated_frame_counterexample:
  "truncated [0x00, 0x5b, 0x00, 0x05, 0x01]
   \<and> sent (handle_bytes (receiving [0x00, 0x5b, 0x00, 0x05, 0x01] 6 answering_card)
        [0x00, 0x5b, 0x00, 0x05, 0x01]) = [[0x00, 0x5b, 0x00, 0x04, 0x55, 0x55, 0x55, 0x55]]
   \<and> sent (handle_bytes (receiving [0x00, 0x5b, 0x00, 0x05, 0x01] 6 answering_card)
        [0x00, 0x5b, 0x00, 0x05, 0x01]) \<noteq> []
   \<and> state (handle_client [receiving [0x00, 0x5b, 0x00, 0x05, 0x01] 6 answering_card]) = AWAITING_FRAME
   \<and> state (handle_client [receiving [0x00, 0x5b, 0x00, 0x05, 0x01] 6 answering_card]) \<noteq> CLOSED"
  by (simp add: run_defs encode_Inr truncated_def wire_payload_def declared_length_def)

text \<open>
  C4, amended. The servers never read the length field, so a truncated frame is
  handled by its byte at index 1 like any other message. With the transport up the
  answer is the status frame for 91, the reset answer with tag 88 for 87, the command
  answer with tag 90 for 89 (the fixed \<^verbatim>\<open>6D 82\<close> during the first five seconds and
  when the library raises, the library's bytes otherwise), nothing for 83, 81 and 85,
  and \<^verbatim>\<open>00 02 6D 82\<close> for any other byte; the loop body ends normally, and the
  session gains exactly those frames and commands and goes on waiting for the next
  frame.
\<close>

theorem truncated_frame_handled:
  assumes trunc: "truncated message"
    and up: "send_raises e = None"
    and rx: "\<not> break_loop e" "recv e = Message (Bytes message)"
  shows "(message ! 1 = 91 \<longrightarrow>
            handle_bytes e message =
              \<lparr>sent = [[0x00, 0x5b, 0x00, 0x04, 0x55, 0x55, 0x55, 0x55]], apdu_calls = [],
               control = Continue\<rparr>)
       \<and> (message ! 1 = 87 \<longrightarrow>
            handle_bytes e message =
              \<lparr>sent = [[0x00, 0x58, 0x00, 0x0b,
                         0x3f, 0x95, 0x13, 0x81, 0x01, 0x80, 0x73, 0xff, 0x01, 0x00, 0x0b]],
               apdu_calls = [], control = Continue\<rparr>)
       \<and> (message ! 1 = 89 \<and> elapsed_time e \<le> 5 \<longrightarrow>
            handle_bytes e message =
              \<lparr>sent = [[0x00, 0x5a, 0x00, 0x02, 0x6d, 0x82]], apdu_calls = [],
               control = Continue\<rparr>)
       \<and> (message ! 1 = 89 \<and> 5 < elapsed_time e \<longrightarrow>
            (\<forall>X. handle_apdu (SendApdu_softToken e) (drop 2 message) = Inr X \<longrightarrow>
               handle_bytes e message =
                 \<lparr>sent = [[0x00, 0x5a, word_of_nat (length X div 256), word_of_nat (length X)] @ X],
                  apdu_calls = [drop 2 message], control = Continue\<rparr>)
          \<and> (\<forall>x. handle_apdu (SendApdu_softToken e) (drop 2 message) = Inl x \<longrightarrow>
               handle_bytes e message =
                 \<lparr>sent = [[0x00, 0x5a, 0x00, 0x02, 0x6d, 0x82]],
                  apdu_calls = [drop 2 message], control = Continue\<rparr>))
       \<and> (message ! 1 \<in> {83, 81, 85} \<longrightarrow>
            handle_bytes e message = \<lparr>sent = [], apdu_calls = [], control = Continue\<rparr>)
       \<and> (message ! 1 \<notin> {91, 87, 89, 83, 81, 85} \<longrightarrow>
            handle_bytes e message =
              \<lparr>sent = [[0x00, 0x02, 0x6d, 0x82]], apdu_calls = [], control = Continue\<rparr>)
       \<and> control (handle_bytes e message) = Continue
       \<and> (sent (handle_bytes e message) = [] \<longleftrightarrow> message ! 1 \<in> {83, 81, 85})
       \<and> (state (handle_client es) = AWAITING_FRAME \<longrightarrow>
            handle_client (es @ [e]) =
              \<lparr>frames = frames (handle_client es) @ sent (handle_bytes e message),
               commands = commands (handle_client es) @ apdu_calls (handle_bytes e message),
               state = AWAITING_FRAME\<rparr>)"
proof -
  from trunc have len: "1 < length message"
    by (simp add: truncated_def)
  have status: "handle_bytes e message =
              \<lparr>sent = [[0x00, 0x5b, 0x00, 0x04, 0x55, 0x55, 0x55, 0x55]], apdu_calls = [],
               control = Continue\<rparr>"
    if "message ! 1 = 91"
    using that len up by (simp add: body_defs encode_Inr)
  have atr: "handle_bytes e message =
              \<lparr>sent = [[0x00, 0x58, 0x00, 0x0b,
                         0x3f, 0x95, 0x13, 0x81, 0x01, 0x80, 0x73, 0xff, 0x01, 0x00, 0x0b]],
               apdu_calls = [], control = Continue\<rparr>"
    if "message ! 1 = 87"
    using that len up by (simp add: body_defs encode_Inr)
  have warm: "handle_bytes e message =
              \<lparr>sent = [[0x00, 0x5a, 0x00, 0x02, 0x6d, 0x82]], apdu_calls = [],
               control = Continue\<rparr>"
    if "message ! 1 = 89 \<and> elapsed_time e \<le> 5"
    using that len up by (simp add: body_defs command_apdu_def encode_Inr)
  have returns: "handle_bytes e message =
              \<lparr>sent = [[0x00, 0x5a, word_of_nat (length X div 256), word_of_nat (length X)] @ X],
               apdu_calls = [drop 2 message], control = Continue\<rparr>"
    if late: "message ! 1 = 89 \<and> 5 < elapsed_time e"
      and X: "handle_apdu (SendApdu_softToken e) (drop 2 message) = Inr X" for X
  proof -
    from X have "length X \<le> 10000" by (rule length_handle_apdu)
    then have "length X < 65536" by simp
    with X late len up show ?thesis
      by (simp add: body_defs command_apdu_def encode_Inr)
  qed
  have raises: "handle_bytes e message =
              \<lparr>sent = [[0x00, 0x5a, 0x00, 0x02, 0x6d, 0x82]],
               apdu_calls = [drop 2 message], control = Continue\<rparr>"
    if "message ! 1 = 89 \<and> 5 < elapsed_time e"
      and "handle_apdu (SendApdu_softToken e) (drop 2 message) = Inl x" for x
    using that len up by (simp add: body_defs command_apdu_def encode_Inr)
  have ignored: "handle_bytes e message = \<lparr>sent = [], apdu_calls = [], control = Continue\<rparr>"
    if "message ! 1 \<in> {83, 81, 85}"
    using that len by (auto simp: body_defs)
  have unknown: "handle_bytes e message =
              \<lparr>sent = [[0x00, 0x02, 0x6d, 0x82]], apdu_calls = [], control = Continue\<rparr>"
    if "message ! 1 \<notin> {91, 87, 89, 83, 81, 85}"
    using that len up by (simp add: body_defs)
  from handle_bytes_up [OF up, of message]
  have c: "control (handle_bytes e message) = Continue"
    and s: "sent (handle_bytes e message) = [] \<longleftrightarrow>
            1 < length message \<and> message ! 1 \<in> {83, 81, 85}"
    by blast+
  from s len have s': "sent (handle_bytes e message) = [] \<longleftrightarrow> message ! 1 \<in> {83, 81, 85}"
    by simp
  have session: "handle_client (es @ [e]) =
              \<lparr>frames = frames (handle_client es) @ sent (handle_bytes e message),
               commands = commands (handle_client es) @ apdu_calls (handle_bytes e message),
               state = AWAITING_FRAME\<rparr>"
    if "state (handle_client es) = AWAITING_FRAME"
    using client_loop_snoc [of handle_bytes es e message] that rx c
    by (simp add: handle_client_def)
  show ?thesis
    using status atr warm returns raises ignored unknown c s' session by blast
qed

theorem truncated_frame_handled_witness:
  "truncated [0x00, 0x5b, 0x00, 0x05, 0x01]
   \<and> handle_bytes (receiving [0x00, 0x5b, 0x00, 0x05, 0x01] 6 answering_card)
        [0x00, 0x5b, 0x00, 0x05, 0x01] =
        \<lparr>sent = [[0x00, 0x5b, 0x00, 0x04, 0x55, 0x55, 0x55, 0x55]], apdu_calls = [],
         control = Continue\<rparr>
   \<and> state (handle_client []) = AWAITING_FRAME
   \<and> handle_client ([] @ [receiving [0x00, 0x5b, 0x00, 0x05, 0x01] 6 answering_card]) =
        \<lparr>frames = [[0x00, 0x5b, 0x00, 0x04, 0x55, 0x55, 0x55, 0x55]], commands = [],
         state = AWAITING_FRAME\<rparr>
   \<and> truncated [0x00, 0x59, 0x00, 0x05, 0xa4]
   \<and> handle_apdu answering_card (drop 2 [0x00, 0x59, 0x00, 0x05, 0xa4]) = Inr [0x90, 0x00]
   \<and> handle_bytes (receiving [0x00, 0x59, 0x00, 0x05, 0xa4] 6 answering_card)
        [0x00, 0x59, 0x00, 0x05, 0xa4] =
        \<lparr>sent = [[0x00, 0x5a, 0x00, 0x02, 0x90, 0x00]], apdu_calls = [[0x00, 0x05, 0xa4]],
         control = Continue\<rparr>
   \<and> handle_client ([] @ [receiving [0x00, 0x59, 0x00, 0x05, 0xa4] 6 answering_card]) =
        \<lparr>frames = [[0x00, 0x5a, 0x00, 0x02, 0x90, 0x00]], commands = [[0x00, 0x05, 0xa4]],
         state = AWAITING_FRAME\<rparr>"
proof -
  have h: "truncated [0x00, t, 0x00, 0x05, p]"
    "send_raises (receiving [0x00, t, 0x00, 0x05, p] 6 answering_card) = None"
    "\<not> break_loop (receiving [0x00, t, 0x00, 0x05, p] 6 answering_card)"
    "recv (receiving [0x00, t, 0x00, 0x05, p] 6 answering_card) =
       Message (Bytes [0x00, t, 0x00, 0x05, p])"
    for t p
    by (simp_all add: receiving_def truncated_def wire_payload_def declared_length_def)
  have more: "elapsed_time (receiving m 6 answering_card) = 6"
    "SendApdu_softToken (receiving m 6 answering_card) = answering_card" for m
    by (simp_all add: receiving_def)
  have lib: "handle_apdu answering_card (drop 2 [0x00, 0x59, 0x00, 0x05, 0xa4]) = Inr [0x90, 0x00]"
    by (simp add: handle_apdu_def answering_card_def response_buffer_def slice_to_def)
  have start: "handle_client [] = \<lparr>frames = [], commands = [], state = AWAITING_FRAME\<rparr>"
    by (simp add: handle_client_def)
  show ?thesis
    using h(1) [of "0x5b" "0x01"] h(1) [of "0x59" "0xa4"] lib start
      truncated_frame_handled [OF h, of "0x5b" "0x01" "[]"]
      truncated_frame_handled [OF h, of "0x59" "0xa4" "[]"]
    by (simp add: more)
qed

text \<open>
  C6, as stated, at a concrete message: \<^verbatim>\<open>00 07\<close> has an unknown tag and is answered
  by the literal \<^verbatim>\<open>00 02 6D 82\<close>. Read in the layout of the specification its length
  field is \<^verbatim>\<open>6D 82\<close>, that is 28034, and no payload byte follows: the invariant does not
  hold of this response.
\<close>

theorem encode_invariant_counterexample:
  "sent (handle_bytes (receiving [0x00, 0x07] 6 answering_card) [0x00, 0x07]) =
      [[0x00, 0x02, 0x6d, 0x82]]
   \<and> declared_length [0x00, 0x02, 0x6d, 0x82] = 28034
   \<and> length (wire_payload [0x00, 0x02, 0x6d, 0x82]) = 0
   \<and> \<not> encode_invariant [0x00, 0x02, 0x6d, 0x82]"
  by (simp add: run_defs encode_invariant_def wire_payload_def declared_length_def)

text \<open>
  C6, amended. Every frame sent in answer to a message whose byte at index 1 is 91, 87
  or 89 is built by \<^verbatim>\<open>encode\<close> and satisfies the invariant: its length field equals
  the number of payload bytes that follow. The answer to an unknown tag is a fixed
  literal outside this layout.
\<close>

theorem computed_frames_invariant:
  assumes tag: "1 < length message" "message ! 1 \<in> {91, 87, 89}"
  shows "\<forall>f \<in> set (sent (handle_bytes e message)). encode_invariant f"
proof
  fix f
  assume f: "f \<in> set (sent (handle_bytes e message))"
  obtain calls resp where cmd: "command_apdu e message = send_encoded e calls (encode 90 resp)"
    using command_apdu_encoded by blast
  from tag have "\<exists>calls tag_sent payload.
      handle_bytes e message = send_encoded e calls (encode tag_sent payload)"
    using cmd by (auto simp: handle_bytes_def tag_recvd_def Let_def)
  then obtain calls' tag_sent payload
    where "handle_bytes e message = send_encoded e calls' (encode tag_sent payload)"
    by blast
  with f have "encode tag_sent payload = Inr f"
    using sent_send_encoded by simp
  then show "encode_invariant f"
    by (rule encode_invariant_encoded)
qed

theorem computed_frames_invariant_witness:
  "1 < length [0x00, 0x59, 0x00, 0xa4 :: byte] \<and> [0x00, 0x59, 0x00, 0xa4 :: byte] ! 1 \<in> {91, 87, 89}
   \<and> sent (handle_bytes (receiving [0x00, 0x59, 0x00, 0xa4] 6 answering_card)
        [0x00, 0x59, 0x00, 0xa4]) = [[0x00, 0x5a, 0x00, 0x02, 0x90, 0x00]]
   \<and> encode_invariant [0x00, 0x5a, 0x00, 0x02, 0x90, 0x00]"
proof -
  have h: "1 < length [0x00, 0x59, 0x00, 0xa4 :: byte]"
    "[0x00, 0x59, 0x00, 0xa4 :: byte] ! 1 \<in> {91, 87, 89}"
    by simp_all
  have s: "sent (handle_bytes (receiving [0x00, 0x59, 0x00, 0xa4] 6 answering_card)
        [0x00, 0x59, 0x00, 0xa4]) = [[0x00, 0x5a, 0x00, 0x02, 0x90, 0x00]]"
    by (simp add: run_defs encode_Inr)
  show ?thesis
    using h s computed_frames_invariant [OF h, of "receiving [0x00, 0x59, 0x00, 0xa4] 6 answering_card"]
    by simp
qed

text \<open>
  C9. Whenever the encoding expression of the servers produces a frame for a tag and a
  payload, decoding that frame gives the tag and the payload back; and it does produce
  a frame for every tag that fits in 16 bits and every payload shorter than 65536 bytes
  (for a longer one \<^verbatim>\<open>to_bytes\<close> raises \<^verbatim>\<open>OverflowError\<close>). The decoder is the one
  of the specification, since the servers have none; what the servers do read of a
  message, the byte at index 1, is the low-order byte of the encoded tag.
\<close>

theorem decode_encode:
  "(\<forall>frame. encode tag payload = Inr frame \<longrightarrow> decode frame = Inr (tag, payload))
   \<and> (0 \<le> tag \<and> tag < 65536 \<and> length payload < 65536 \<longrightarrow>
        (\<exists>frame. encode tag payload = Inr frame))
   \<and> (\<forall>frame. encode tag payload = Inr frame \<longrightarrow> tag_recvd frame = Some (word_of_int tag))"
proof -
  let ?frame = "[word_of_int (tag div 256), word_of_int tag,
      word_of_nat (length payload div 256), word_of_nat (length payload)] @ payload"
  have round_trip: "decode frame = Inr (tag, payload)" if enc: "encode tag payload = Inr frame" for frame
  proof -
    from enc have ok: "0 \<le> tag" "tag < 65536" "length payload < 65536"
      using encode_InrD by blast+
    from enc encode_Inr [OF ok] have frame: "frame = ?frame"
      by simp
    have len: "declared_length ?frame = length payload"
      using ok(3) by (rule declared_length_encoded)
    have pay: "wire_payload ?frame = payload"
      by (simp add: wire_payload_def)
    have tg: "256 * uint (?frame ! 0) + uint (?frame ! 1) = tag"
      using tag_of_encoded [OF ok(1,2)] by simp
    show ?thesis
      unfolding frame decode_def len pay tg by simp
  qed
  have produced: "\<exists>frame. encode tag payload = Inr frame"
    if "0 \<le> tag \<and> tag < 65536 \<and> length payload < 65536"
    using that encode_Inr [of tag payload] by simp
  have routed: "tag_recvd frame = Some (word_of_int tag)"
    if enc: "encode tag payload = Inr frame" for frame
  proof -
    from enc have ok: "0 \<le> tag" "tag < 65536" "length payload < 65536"
      using encode_InrD by blast+
    from enc encode_Inr [OF ok] have "frame = ?frame"
      by simp
    then show ?thesis
      by (simp add: tag_recvd_def)
  qed
  from round_trip produced routed show ?thesis by blast
qed

theorem decode_encode_witness:
  "(0::int) \<le> 90 \<and> (90::int) < 65536 \<and> length [0x6d, 0x82 :: byte] < 65536
   \<and> encode 90 [0x6d, 0x82] = Inr [0x00, 0x5a, 0x00, 0x02, 0x6d, 0x82]
   \<and> decode [0x00, 0x5a, 0x00, 0x02, 0x6d, 0x82] = Inr (90, [0x6d, 0x82])
   \<and> tag_recvd [0x00, 0x5a, 0x00, 0x02, 0x6d, 0x82] = Some 90"
proof -
  have e: "encode 90 [0x6d, 0x82] = Inr [0x00, 0x5a, 0x00, 0x02, 0x6d, 0x82]"
    by (simp add: encode_Inr)
  show ?thesis
    using e decode_encode [of 90 "[0x6d, 0x82]"] by simp
qed

end
